theory Spec2Isabelle
  imports Main "HOL-Library.Word"
begin

unbundle bit_operations_syntax

section \<open>UTF-16 strings\<close>

text \<open>
  Modelled from the spec: the package \<open>internal/utf16\<close> is not among the sources; the
  spec treats it as "an opaque sequence-of-code-units type supporting equality,
  concatenation, and substring/append operations". \<open>utf16.Str\<close> is \<open>[]uint16\<close> (the lexer
  indexes it and builds it from \<open>[]uint16{c}\<close>), so it is a list of 16-bit words.
  \<open>S\<close> (\<open>utf16.S\<close>, \<open>utf16.NewStr\<close>) is only applied to ASCII literals, where every byte
  of the Go string is one code unit of the same value.
\<close>

type_synonym Str = "16 word list"

definition S :: "string \<Rightarrow> Str" where
  "S s = map (\<lambda>c. of_nat (of_char c)) s"

definition Equal :: "Str \<Rightarrow> Str \<Rightarrow> bool" where
  "Equal a b = (a = b)"

fun HasPrefix :: "Str \<Rightarrow> Str \<Rightarrow> bool" where
  "HasPrefix s [] = True"
| "HasPrefix [] (y # ys) = False"
| "HasPrefix (x # xs) (y # ys) = (x = y \<and> HasPrefix xs ys)"

fun Contains :: "Str \<Rightarrow> Str \<Rightarrow> bool" where
  "Contains [] sub = (sub = [])"
| "Contains (x # xs) sub = (HasPrefix (x # xs) sub \<or> Contains xs sub)"

section \<open>Tokens\<close>

text \<open>
  Modelled from the spec: the package \<open>token\<close> is not among the sources. Its \<open>Type\<close> is
  the token kind of the spec's data model; the lexer under \<open>src/lexer/lex.go\<close> only ever
  builds \<open>token.EOF\<close>, \<open>token.Decimal\<close>, \<open>token.Hexadecimal\<close> and \<open>token.Illegal\<close>, the
  evaluator compares against \<open>token.Minus\<close> and \<open>token.Plus\<close>.
\<close>

datatype Type =
    token_Decimal | token_Hexadecimal | token_String | token_Ident
  | token_LineTerminator | token_Dot | token_Comma | token_LParen | token_RParen
  | token_Plus | token_Minus | token_Illegal | token_EOF

record Tokval =
  Type :: Type
  Value :: Str

text \<open>\<open>var EOF Tokval = Tokval{ Type: token.EOF }\<close>: the value is the nil slice.\<close>

definition EOF :: Tokval where
  "EOF = \<lparr>Type = token_EOF, Value = []\<rparr>"

definition Tokval_Equal :: "Tokval \<Rightarrow> Tokval \<Rightarrow> bool" where
  "Tokval_Equal t other = (Type t = Type other \<and> Equal (Value t) (Value other))"

section \<open>The lexer (src/lexer/lex.go)\<close>

definition numbers :: Str where "numbers = S ''0123456789''"
definition dot :: Str where "dot = S ''.''"
definition exponents :: Str where "exponents = S ''eE''"
definition hexStart :: Str where "hexStart = S ''xX''"

definition strFromChar :: "16 word \<Rightarrow> Str" where
  "strFromChar utf16char = [utf16char]"

definition isNumber :: "16 word \<Rightarrow> bool" where
  "isNumber utf16char = Contains numbers (strFromChar utf16char)"

definition isEOF :: "Str \<Rightarrow> nat \<Rightarrow> bool" where
  "isEOF code position = (position \<ge> length code)"

definition isDot :: "16 word \<Rightarrow> bool" where
  "isDot utf16char = Equal dot (strFromChar utf16char)"

definition isHexStart :: "16 word \<Rightarrow> bool" where
  "isHexStart utf16char = Contains hexStart (strFromChar utf16char)"

text \<open>
  A \<open>lexerState\<close> is a closure returning a token and the next state, \<open>nil\<close> ending the
  stream. The only closures the lexer ever builds are \<open>initialState(code)\<close> for some
  \<open>code\<close>, so a state is represented by that captured \<open>code\<close>: \<open>Some code\<close> is the closure
  \<open>initialState(code)\<close> and \<open>None\<close> is \<open>nil\<close>.

  The slice expression \<open>code[position:]\<close> panics when \<open>position\<close> exceeds the length;
  a state function that panics returns \<open>None\<close> at the outer level. Index reads
  \<open>code[position]\<close> are always guarded in the source by a preceding length test.
  \<open>position\<close> is a \<open>uint\<close> that only counts up to the length of a slice, so it is a \<open>nat\<close>.
\<close>

type_synonym lexerState = "Str option"

definition sliceFrom :: "Str \<Rightarrow> nat \<Rightarrow> Str option" where
  "sliceFrom code position = (if position \<le> length code then Some (drop position code) else None)"

definition illegalToken :: "Str \<Rightarrow> (Tokval \<times> lexerState) option" where
  "illegalToken code = Some (\<lparr>Type = token_Illegal, Value = code\<rparr>, None)"

text \<open>The loop \<open>for !isEOF(code, position) { position += 1 }\<close> of both literal states.\<close>

function skipToEOF :: "Str \<Rightarrow> nat \<Rightarrow> nat" where
  "skipToEOF code position =
     (if \<not> isEOF code position then skipToEOF code (position + 1) else position)"
  by pat_completeness auto
termination
  by (relation "measure (\<lambda>(code, position). length code - position)") (auto simp: isEOF_def)

declare skipToEOF.simps [simp del]

definition hexadecimalState :: "Str \<Rightarrow> nat \<Rightarrow> (Tokval \<times> lexerState) option" where
  "hexadecimalState code position =
     (let position = skipToEOF code position in
      case sliceFrom code position of
        None \<Rightarrow> None
      | Some rest \<Rightarrow> Some (\<lparr>Type = token_Hexadecimal, Value = code\<rparr>, Some rest))"

definition decimalState :: "Str \<Rightarrow> nat \<Rightarrow> (Tokval \<times> lexerState) option" where
  "decimalState code position =
     (let position = skipToEOF code position in
      case sliceFrom code position of
        None \<Rightarrow> None
      | Some rest \<Rightarrow> Some (\<lparr>Type = token_Decimal, Value = code\<rparr>, Some rest))"

definition numberState :: "Str \<Rightarrow> nat \<Rightarrow> (Tokval \<times> lexerState) option" where
  "numberState code position =
     (if isEOF code position then
        (case sliceFrom code position of
           None \<Rightarrow> None
         | Some rest \<Rightarrow> Some (\<lparr>Type = token_Decimal, Value = code\<rparr>, Some rest))
      else if isNumber (code ! position) \<or> isDot (code ! position) then
        decimalState code (position + 1)
      else if isHexStart (code ! position) then
        (if isEOF code (position + 1) then illegalToken code
         else hexadecimalState code position)
      else illegalToken code)"

definition initialState :: "Str \<Rightarrow> (Tokval \<times> lexerState) option" where
  "initialState code =
     (if length code = 0 then Some (EOF, None)
      else if isNumber (code ! 0) then numberState code 1
      else if isDot (code ! 0) then decimalState code 1
      else Some (EOF, None))"

lemma skipToEOF_eq: "skipToEOF code position = max position (length code)"
proof (induction code position rule: skipToEOF.induct)
  case (1 code position)
  show ?case
  proof (cases "isEOF code position")
    case True
    then show ?thesis by (subst skipToEOF.simps) (simp add: isEOF_def)
  next
    case False
    then have "skipToEOF code position = skipToEOF code (position + 1)"
      by (subst skipToEOF.simps) simp
    with 1 False show ?thesis by (simp add: isEOF_def)
  qed
qed

lemma initialState_shorter:
  assumes "initialState code = Some (tok, Some rest)"
  shows "length rest < length code"
  using assms
  by (auto simp: initialState_def numberState_def decimalState_def hexadecimalState_def
      illegalToken_def sliceFrom_def skipToEOF_eq isEOF_def Let_def
      split: if_splits option.splits)

text \<open>
  \<open>Lex\<close> starts a goroutine that sends every token of the state machine on a channel and
  closes it when the state becomes \<open>nil\<close>. The model returns the sequence of tokens sent
  before the close; \<open>None\<close> stands for a panic of the goroutine.
\<close>

function Lex_loop :: "lexerState \<Rightarrow> Tokval list option" where
  "Lex_loop None = Some []"
| "Lex_loop (Some code) =
     (case initialState code of
        None \<Rightarrow> None
      | Some (token, newState) \<Rightarrow>
          (case Lex_loop newState of None \<Rightarrow> None | Some tokens \<Rightarrow> Some (token # tokens)))"
  by pat_completeness auto
termination
proof (relation "measure (\<lambda>st. case st of None \<Rightarrow> 0 | Some code \<Rightarrow> Suc (length code))")
  show "wf (measure (\<lambda>st. case st of None \<Rightarrow> 0 | Some code \<Rightarrow> Suc (length code)))" by simp
next
  fix code x2 x y
  assume "initialState code = Some x2" and "(x, y) = x2"
  then have "initialState code = Some (x, y)" by simp
  then show "(y, Some code) \<in> measure (\<lambda>st. case st of None \<Rightarrow> 0 | Some code \<Rightarrow> Suc (length code))"
    by (cases y) (auto dest: initialState_shorter)
qed

definition Lex :: "Str \<Rightarrow> Tokval list option" where
  "Lex code = Lex_loop (Some code)"

section \<open>Values (package types)\<close>

subsection \<open>src/types/bool.go\<close>

type_synonym Bool = bool

definition types_True :: Bool where "types_True = True"
definition types_False :: Bool where "types_False = False"

definition NewBool :: "bool \<Rightarrow> Bool" where
  "NewBool b = b"

definition Bool_IsTrue :: "Bool \<Rightarrow> bool" where
  "Bool_IsTrue b = b"

definition Bool_IsFalse :: "Bool \<Rightarrow> bool" where
  "Bool_IsFalse b = b"

definition Bool_ToBool :: "Bool \<Rightarrow> Bool" where
  "Bool_ToBool b = b"

definition Bool_Equal :: "Bool \<Rightarrow> Bool \<Rightarrow> bool" where
  "Bool_Equal b a = (b = a)"

subsection \<open>The value kinds\<close>

text \<open>
  Modelled from the spec: of the package \<open>types\<close> only \<open>bool.go\<close> is among the sources.
  The value kinds are those of the spec's data model: "Number (double-precision float,
  including signed zero and NaN, per IEEE-754); String (sequence of UTF-16 code units);
  Bool; Null; Undefined; Object (an ordered-by-insertion mapping from
  property-name-string to a property record {value, writable, enumerable,
  configurable}); Function (an Object plus a Call(receiver, arguments) operation)".

  A \<open>float64\<close> is its IEEE-754 binary64 bit pattern: bit 63 is the sign, bits 62..52 the
  exponent, bits 51..0 the fraction. An object that satisfies the Function capability
  carries the identity of its \<open>Call\<close> implementation in \<open>callable\<close>; a plain data object
  has \<open>None\<close> there.
\<close>

type_synonym float64 = "64 word"

datatype Kind = KindUndefined | KindNull | KindBool | KindNumber | KindString | KindObject

datatype Value =
    Number float64 | String Str | Bool Bool | Null | Undefined | Object Obj
and Obj =
    DataObject (props: "(Str \<times> Property) list") (callable: "nat option")
and Property =
    Property (pvalue: Value) (writable: bool) (enumerable: bool) (configurable: bool)

datatype error = Error string | Panic string

text \<open>The method \<open>Kind()\<close> of a value (\<open>Bool.Kind\<close> of \<open>bool.go\<close> for a \<open>Bool\<close>).\<close>

fun Value_Kind :: "Value \<Rightarrow> Kind" where
  "Value_Kind (Number n) = KindNumber"
| "Value_Kind (String s) = KindString"
| "Value_Kind (Bool b) = KindBool"
| "Value_Kind Null = KindNull"
| "Value_Kind Undefined = KindUndefined"
| "Value_Kind (Object obj) = KindObject"

text \<open>The sign bit, the exponent field and the fraction field of a binary64.\<close>

definition signMask :: float64 where "signMask = 0x8000000000000000"
definition expMask :: float64 where "expMask = 0x7FF0000000000000"
definition fracMask :: float64 where "fracMask = 0x000FFFFFFFFFFFFF"

definition signbit :: "float64 \<Rightarrow> bool" where
  "signbit x = (x AND signMask \<noteq> 0)"

definition isNaN :: "float64 \<Rightarrow> bool" where
  "isNaN x = (x AND expMask = expMask \<and> x AND fracMask \<noteq> 0)"

definition isZero :: "float64 \<Rightarrow> bool" where
  "isZero x = (x AND (expMask OR fracMask) = 0)"

text \<open>
  Go's unary \<open>-\<close> on a \<open>float64\<close> is the IEEE-754 negate operation: the operand with its
  sign bit reversed, whatever its class. Go's unary \<open>+\<close> returns the operand.
\<close>

definition negate :: "float64 \<Rightarrow> float64" where
  "negate x = x XOR signMask"

text \<open>
  Modelled from the spec: \<open>types.StrictEqual\<close> is not among the sources. "StrictEqual(a,b)
  holds iff Kind(a)==Kind(b) and the underlying values compare equal (bit-exact for
  Number, including that NaN is never strict-equal to itself and +0/-0 compare equal)".
\<close>

definition float64_eq :: "float64 \<Rightarrow> float64 \<Rightarrow> bool" where
  "float64_eq x y = (\<not> isNaN x \<and> \<not> isNaN y \<and> (x = y \<or> (isZero x \<and> isZero y)))"

fun StrictEqual :: "Value \<Rightarrow> Value \<Rightarrow> bool" where
  "StrictEqual (Number x) (Number y) = float64_eq x y"
| "StrictEqual (String x) (String y) = Equal x y"
| "StrictEqual (Bool x) (Bool y) = Bool_Equal x y"
| "StrictEqual Null Null = True"
| "StrictEqual Undefined Undefined = True"
| "StrictEqual (Object x) (Object y) = (x = y)"
| "StrictEqual a b = False"

text \<open>
  Modelled from the spec: \<open>DataObject.Get\<close> is not among the sources. "Get(name) \<rightarrow> Value:
  returns the stored value, or Undefined if absent -- never an error"; "property names
  within one Object are unique". Its Go signature returns a value and an error, and the
  evaluator tests the error, so the model returns a sum that is always \<open>Inr\<close>.
\<close>

definition Get :: "Obj \<Rightarrow> Str \<Rightarrow> error + Value" where
  "Get obj name = (case map_of (props obj) name of
                     None \<Rightarrow> Inr Undefined
                   | Some p \<Rightarrow> Inr (pvalue p))"

text \<open>
  Modelled from the spec: the Function capability, tested in the source by the type
  assertion \<open>obj.(types.Function)\<close>.
\<close>

definition isFunction :: "Obj \<Rightarrow> bool" where
  "isFunction obj = (callable obj \<noteq> None)"

section \<open>The syntax tree (package ast)\<close>

text \<open>
  Modelled from the spec: the package \<open>ast\<close> is not among the sources. The node variants
  are those of the spec's data model; \<open>ast.IsExpr\<close> holds of the variants that the
  grammar's \<open>Expression\<close> produces (unary, member and call expressions, identifiers and
  the literals).
\<close>

datatype Node =
    Program "Node list"
  | ast_Number float64 bool
  | ast_String Str
  | ast_Bool bool
  | ast_Null
  | ast_Undefined
  | Ident Str
  | UnaryExpr Type Node
  | MemberExpr Node Str
  | CallExpr Node "Node list"
  | VarDecl Str Node
  | VarDecls "Node list"
  | FunDecl Str "Str list" Node

fun IsExpr :: "Node \<Rightarrow> bool" where
  "IsExpr (ast_Number v isInt) = True"
| "IsExpr (ast_String s) = True"
| "IsExpr (ast_Bool b) = True"
| "IsExpr ast_Null = True"
| "IsExpr ast_Undefined = True"
| "IsExpr (Ident name) = True"
| "IsExpr (UnaryExpr operator operand) = True"
| "IsExpr (MemberExpr object property) = True"
| "IsExpr (CallExpr callee args) = True"
| "IsExpr n = False"

section \<open>The evaluator (package abad)\<close>

text \<open>
  The sources hold two versions of the evaluator; this is the later one, with the global
  object (\<open>a.global\<close>) and with member and call expressions. Apart from the calls of built-in functions it has no effect: no node
  it handles writes to the global object. The effect of a call is made observable by a
  log of the invocations of \<open>Call\<close>, in the order they happen, which the evaluator threads
  through every function.
\<close>

type_synonym CallLog = "(Obj \<times> Value list) list"

text \<open>
  What the evaluator uses and neither the sources nor the spec determine is a parameter:
  the renderings of an identifier (\<open>ast.Ident.String\<close>), a node, a token type, a kind and a
  value (possibly the nil interface, \<open>None\<close>) by the \<open>%s\<close> verb of \<open>fmt\<close>; the failure of
  \<open>ToObject\<close> on a primitive; and the result of \<open>Call\<close> on a function object, which may
  depend on the calls made before it.
\<close>

record Runtime =
  Ident_String :: "Str \<Rightarrow> string"
  Node_String :: "Node \<Rightarrow> string"
  Type_String :: "Type \<Rightarrow> string"
  Kind_String :: "Kind \<Rightarrow> string"
  Value_String :: "Value option \<Rightarrow> string"
  ToObject_primitive :: "Value \<Rightarrow> error"
  Call :: "CallLog \<Rightarrow> Obj \<Rightarrow> Value list \<Rightarrow> Value"

record Abad =
  filename :: string
  global :: Obj

text \<open>
  Modelled from the spec: \<open>ToObject\<close> is not among the sources. It "wraps primitives in an
  Object -- currently only Objects satisfy this without boxing; boxing of
  Number/String/Bool is a declared but unimplemented requirement".
\<close>

definition ToObject :: "Runtime \<Rightarrow> Value \<Rightarrow> error + Obj" where
  "ToObject rt v = (case v of Object obj \<Rightarrow> Inr obj | _ \<Rightarrow> Inl (ToObject_primitive rt v))"

text \<open>
  Every function returns Go's pair of a value and an error as a sum, next to the call
  log. A panic is an error of its own kind. \<open>eval\<close> and \<open>evalProgram\<close> can return the nil
  interface without an error (the empty program), so their value is optional. The two
  \<open>range\<close> loops are the functions \<open>evalProgram_loop\<close> and \<open>evalArgs_loop\<close>, which carry
  the loop's variable (\<open>result\<close>, \<open>vargs\<close>).
\<close>

definition evalIdentExpr :: "Runtime \<Rightarrow> Abad \<Rightarrow> Str \<Rightarrow> error + Value" where
  "evalIdentExpr rt a ident =
     (case Get (global a) ident of
        Inl err \<Rightarrow> Inl err
      | Inr val \<Rightarrow>
          if StrictEqual val Undefined
          then Inl (Error (Ident_String rt ident @ '' is not defined''))
          else Inr val)"

function (sequential) eval :: "Runtime \<Rightarrow> Abad \<Rightarrow> Node \<Rightarrow> CallLog \<Rightarrow> (error + Value option) \<times> CallLog"
and evalProgram :: "Runtime \<Rightarrow> Abad \<Rightarrow> Node list \<Rightarrow> CallLog \<Rightarrow> (error + Value option) \<times> CallLog"
and evalProgram_loop :: "Runtime \<Rightarrow> Abad \<Rightarrow> Node list \<Rightarrow> Value option \<Rightarrow> CallLog \<Rightarrow> (error + Value option) \<times> CallLog"
and evalUnaryExpr :: "Runtime \<Rightarrow> Abad \<Rightarrow> Type \<Rightarrow> Node \<Rightarrow> CallLog \<Rightarrow> (error + Value) \<times> CallLog"
and evalExpr :: "Runtime \<Rightarrow> Abad \<Rightarrow> Node \<Rightarrow> CallLog \<Rightarrow> (error + Value) \<times> CallLog"
and evalMemberExpr :: "Runtime \<Rightarrow> Abad \<Rightarrow> Node \<Rightarrow> Str \<Rightarrow> CallLog \<Rightarrow> (error + Value) \<times> CallLog"
and evalCallExpr :: "Runtime \<Rightarrow> Abad \<Rightarrow> Node \<Rightarrow> Node list \<Rightarrow> CallLog \<Rightarrow> (error + Value) \<times> CallLog"
and evalArgs :: "Runtime \<Rightarrow> Abad \<Rightarrow> Node list \<Rightarrow> CallLog \<Rightarrow> (error + Value list) \<times> CallLog"
and evalArgs_loop :: "Runtime \<Rightarrow> Abad \<Rightarrow> Node list \<Rightarrow> Value list \<Rightarrow> CallLog \<Rightarrow> (error + Value list) \<times> CallLog"
where
  "eval rt a n s =
     (if IsExpr n then
        (case evalExpr rt a n s of
           (Inl err, s') \<Rightarrow> (Inl err, s')
         | (Inr v, s') \<Rightarrow> (Inr (Some v), s'))
      else
        (case n of
           Program nodes \<Rightarrow> evalProgram rt a nodes s
         | _ \<Rightarrow> (Inl (Panic (''AST('' @ Node_String rt n @ '') not implemented'')), s)))"
| "evalProgram rt a nodes s = evalProgram_loop rt a nodes None s"
| "evalProgram_loop rt a [] result s = (Inr result, s)"
| "evalProgram_loop rt a (node # nodes) result s =
     (case eval rt a node s of
        (Inl err, s') \<Rightarrow> (Inl err, s')
      | (Inr result', s') \<Rightarrow> evalProgram_loop rt a nodes result' s')"
| "evalUnaryExpr rt a op operand s =
     (case eval rt a operand s of
        (Inl err, s') \<Rightarrow> (Inl err, s')
      | (Inr obj, s') \<Rightarrow>
          (case obj of
             Some (Number num) \<Rightarrow>
               (if op = token_Minus then (Inr (Number (negate num)), s')
                else if op = token_Plus then (Inr (Number num), s')
                else (Inl (Error (''unsupported unary operator: '' @ Type_String rt op)), s'))
           | _ \<Rightarrow> (Inl (Error (''not a number: '' @ Value_String rt obj)), s')))"
| "evalExpr rt a n s =
     (if \<not> IsExpr n then (Inl (Panic ''internal error: not an expression''), s)
      else
        (case n of
           ast_Number val isInt \<Rightarrow> (Inr (Number val), s)
         | Ident val \<Rightarrow> (evalIdentExpr rt a val, s)
         | MemberExpr object property \<Rightarrow> evalMemberExpr rt a object property s
         | CallExpr callee args \<Rightarrow> evalCallExpr rt a callee args s
         | UnaryExpr op operand \<Rightarrow> evalUnaryExpr rt a op operand s
         | _ \<Rightarrow> (Inl (Panic ''unreachable''), s)))"
| "evalMemberExpr rt a object property s =
     (case evalExpr rt a object s of
        (Inl err, s') \<Rightarrow> (Inl err, s')
      | (Inr objval, s') \<Rightarrow>
          if Value_Kind objval \<noteq> KindObject
          then (Inl (Panic ''wrapping primitive values not implemented yet''), s')
          else
            (case ToObject rt objval of
               Inl err \<Rightarrow> (Inl err, s')
             | Inr obj \<Rightarrow> (Get obj property, s')))"
| "evalCallExpr rt a callee args s =
     (case evalExpr rt a callee s of
        (Inl err, s') \<Rightarrow> (Inl err, s')
      | (Inr objval, s') \<Rightarrow>
          (case ToObject rt objval of
             Inl err \<Rightarrow> (Inl err, s')
           | Inr obj \<Rightarrow>
               if \<not> isFunction obj
               then (Inl (Error (Kind_String rt (Value_Kind objval) @ '' is not a function'')), s')
               else
                 (case evalArgs rt a args s' of
                    (Inl err, s'') \<Rightarrow> (Inl err, s'')
                  | (Inr vargs, s'') \<Rightarrow> (Inr (Call rt s'' obj vargs), s'' @ [(obj, vargs)]))))"
| "evalArgs rt a args s = evalArgs_loop rt a args [] s"
| "evalArgs_loop rt a [] vargs s = (Inr vargs, s)"
| "evalArgs_loop rt a (arg # args) vargs s =
     (case evalExpr rt a arg s of
        (Inl err, s') \<Rightarrow> (Inl err, s')
      | (Inr v, s') \<Rightarrow> evalArgs_loop rt a args (vargs @ [v]) s')"
  by pat_completeness auto
termination
  by (relation "measure
        (case_sum
          (case_sum
            (case_sum (\<lambda>(rt, a, n, s). 3 * size n + 1)
                      (\<lambda>(rt, a, nodes, s). 3 * size_list size nodes + 1))
            (case_sum (\<lambda>(rt, a, nodes, result, s). 3 * size_list size nodes)
                      (\<lambda>(rt, a, op, operand, s). 3 * size operand + 2)))
          (case_sum
            (case_sum (\<lambda>(rt, a, n, s). 3 * size n)
                      (\<lambda>(rt, a, object, property, s). 3 * size object + 2))
            (case_sum (\<lambda>(rt, a, callee, args, s). 3 * (size callee + size_list size args) + 2)
              (case_sum (\<lambda>(rt, a, args, s). 3 * size_list size args + 1)
                        (\<lambda>(rt, a, args, vargs, s). 3 * size_list size args)))))")
     simp_all

declare eval.simps [simp del] evalProgram.simps [simp del] evalProgram_loop.simps [simp del]
  evalUnaryExpr.simps [simp del] evalExpr.simps [simp del] evalMemberExpr.simps [simp del]
  evalCallExpr.simps [simp del] evalArgs.simps [simp del] evalArgs_loop.simps [simp del]

section \<open>An interpreter instance\<close>

text \<open>
  A concrete interpreter on which the theorems below are evaluated: a global object that
  binds \<open>console\<close> to an object with the callable member \<open>log\<close> (what \<open>setup\<close> registers)
  and \<open>u\<close> to Undefined, and an instance of the parameters in which identifiers print as
  their ASCII text and every call returns Undefined.
\<close>

definition example_log :: Obj where
  "example_log = DataObject [] (Some 0)"

definition example_console :: Obj where
  "example_console = DataObject [(S ''log'', Property (Object example_log) True True True)] None"

definition example_Abad :: Abad where
  "example_Abad = \<lparr>filename = ''<anonymous>'',
     global = DataObject [(S ''console'', Property (Object example_console) True True True),
                          (S ''u'', Property Undefined True True True)] None\<rparr>"

definition example_Runtime :: Runtime where
  "example_Runtime = \<lparr>
     Ident_String = map (\<lambda>u. char_of (unat u)),
     Node_String = (\<lambda>n. ''node''),
     Type_String = (\<lambda>t. ''token''),
     Kind_String = (\<lambda>k. if k = KindObject then ''object'' else ''primitive''),
     Value_String = (\<lambda>v. ''value''),
     ToObject_primitive = (\<lambda>v. Error ''not an object''),
     Call = (\<lambda>log obj args. Undefined)\<rparr>"

definition example_call :: "Node list \<Rightarrow> Node" where
  "example_call args = CallExpr (MemberExpr (Ident (S ''console'')) (S ''log'')) args"

definition example_one :: Node where
  "example_one = ast_Number 0x3FF0000000000000 True"

section \<open>Properties of the lexer\<close>

lemma S_simps: "S [] = []" "S (c # cs) = of_nat (of_char c) # S cs"
  by (simp_all add: S_def)

lemmas char_defs = isNumber_def isDot_def isHexStart_def
  strFromChar_def numbers_def dot_def hexStart_def Equal_def S_simps

lemma decimalState_eq:
  "position \<le> length code \<Longrightarrow>
   decimalState code position = Some (\<lparr>Type = token_Decimal, Value = code\<rparr>, Some [])"
  by (simp add: decimalState_def sliceFrom_def skipToEOF_eq max_def)

lemma hexadecimalState_eq:
  "position \<le> length code \<Longrightarrow>
   hexadecimalState code position = Some (\<lparr>Type = token_Hexadecimal, Value = code\<rparr>, Some [])"
  by (simp add: hexadecimalState_def sliceFrom_def skipToEOF_eq max_def)

lemma numberState_1_cases:
  assumes "code \<noteq> []"
  shows "numberState code 1 = Some (\<lparr>Type = token_Decimal, Value = code\<rparr>, Some [])
       \<or> numberState code 1 = Some (\<lparr>Type = token_Hexadecimal, Value = code\<rparr>, Some [])
       \<or> numberState code 1 = Some (\<lparr>Type = token_Illegal, Value = code\<rparr>, None)"
proof (cases "isEOF code 1")
  case True
  with assms have "length code = 1" by (cases code) (auto simp: isEOF_def)
  then show ?thesis by (simp add: numberState_def isEOF_def sliceFrom_def)
next
  case False
  then have "2 \<le> length code" by (simp add: isEOF_def)
  then show ?thesis
    using False
    by (simp add: numberState_def decimalState_eq hexadecimalState_eq illegalToken_def)
qed

text \<open>
  The state machine never panics, and whatever state follows the first token has consumed
  the whole input: the first token carries all of \<open>code\<close> as its lexeme.
\<close>

lemma initialState_cases:
  "initialState code = Some (EOF, None)
   \<or> initialState code = Some (\<lparr>Type = token_Illegal, Value = code\<rparr>, None)
   \<or> initialState code = Some (\<lparr>Type = token_Decimal, Value = code\<rparr>, Some [])
   \<or> initialState code = Some (\<lparr>Type = token_Hexadecimal, Value = code\<rparr>, Some [])"
proof (cases "code = []")
  case True
  then show ?thesis by (simp add: initialState_def)
next
  case False
  then have "1 \<le> length code" by (cases code) auto
  with numberState_1_cases [OF False] show ?thesis
    by (auto simp: initialState_def decimalState_eq)
qed

lemma initialState_Nil: "initialState [] = Some (EOF, None)"
  by (simp add: initialState_def)

lemma Lex_shape:
  "(\<exists>tok. Lex code = Some [tok] \<and> (Type tok = token_Illegal \<or> tok = EOF))
   \<or> (\<exists>tok. Lex code = Some [tok, EOF] \<and> Type tok \<noteq> token_Illegal \<and> Type tok \<noteq> token_EOF)"
  using initialState_cases [of code]
  by (auto simp: Lex_def initialState_Nil EOF_def)

text \<open>
  C6. The claim: each of \<open>"0.1.2"\<close>, \<open>"123e123e123"\<close>, \<open>"0x"\<close> and \<open>"0x123456G"\<close> lexes to
  exactly one Illegal token whose lexeme is the entire input. The lexer does so for
  \<open>"0x"\<close> only: \<open>decimalState\<close> and \<open>hexadecimalState\<close> skip to the end of the input without
  looking at the code units, so the duplicated point and the duplicated exponent are a
  Decimal token, and the hexadecimal literal with a trailing \<open>G\<close> is a Hexadecimal token,
  each followed by the end-of-input token.
\<close>

theorem Lex_malformed_numeric_literals:
  "Lex (S ''0.1.2'') = Some [\<lparr>Type = token_Decimal, Value = S ''0.1.2''\<rparr>, EOF]
   \<and> Lex (S ''123e123e123'') = Some [\<lparr>Type = token_Decimal, Value = S ''123e123e123''\<rparr>, EOF]
   \<and> Lex (S ''0x'') = Some [\<lparr>Type = token_Illegal, Value = S ''0x''\<rparr>]
   \<and> Lex (S ''0x123456G'') = Some [\<lparr>Type = token_Hexadecimal, Value = S ''0x123456G''\<rparr>, EOF]"
  by (simp add: Lex_def initialState_def numberState_def decimalState_eq hexadecimalState_eq
      illegalToken_def isEOF_def char_defs)

text \<open>
  C7. The claim: \<open>"+-+-"\<close> lexes to the four sign tokens Plus, Minus, Plus, Minus and then
  the end-of-input token, and a sign is never folded into a numeric literal's lexeme.
  The lexer has no state for a sign: a sign at the start of the input falls through to
  the final \<open>return EOF, nil\<close> of \<open>initialState\<close>, so \<open>"+-+-"\<close> is the end-of-input
  token alone, and a sign after two digits is swallowed by \<open>decimalState\<close> into the
  Decimal token.
\<close>

theorem Lex_signs:
  "Lex (S ''+-+-'') = Some [EOF]
   \<and> Lex (S ''12+3'') = Some [\<lparr>Type = token_Decimal, Value = S ''12+3''\<rparr>, EOF]"
  by (simp add: Lex_def initialState_def numberState_def decimalState_eq isEOF_def char_defs)

text \<open>
  C9. Whatever the input, lexing returns (the state machine neither panics nor runs
  forever), and an Illegal token in the stream is its final token: no token follows it,
  and the stream holds no end-of-input token at all.
\<close>

theorem Lex_Illegal_is_final:
  "\<exists>tokens. Lex code = Some tokens \<and>
     (\<forall>i < length tokens. Type (tokens ! i) = token_Illegal \<longrightarrow>
        Suc i = length tokens \<and> (\<forall>t \<in> set tokens. Type t \<noteq> token_EOF))"
  using Lex_shape [of code]
  by (auto simp: EOF_def less_Suc_eq)

theorem Lex_Illegal_is_final_witness:
  "Lex (S ''0x'') = Some [\<lparr>Type = token_Illegal, Value = S ''0x''\<rparr>]
   \<and> Type ([\<lparr>Type = token_Illegal, Value = S ''0x''\<rparr>] ! 0) = token_Illegal
   \<and> Suc 0 = length [\<lparr>Type = token_Illegal, Value = S ''0x''\<rparr>]"
  using Lex_Illegal_is_final [of "S ''0x''"]
  by (simp add: Lex_def initialState_def numberState_def illegalToken_def isEOF_def char_defs)

text \<open>
  C10. An input whose first code unit is a digit other than \<open>0\<close>, whose second is \<open>x\<close> or
  \<open>X\<close>, and which goes on after it, lexes to a single Hexadecimal token whose lexeme is
  the whole input (followed by the end-of-input token): \<open>numberState\<close> tests the second code
  unit only. \<open>"1x2"\<close> is such an input.
\<close>

theorem Lex_hexadecimal_nonzero_leading_digit:
  assumes "d \<in> set (S ''123456789'')" and "x \<in> set (S ''xX'')" and "rest \<noteq> []"
  shows "Lex (d # x # rest) = Some [\<lparr>Type = token_Hexadecimal, Value = d # x # rest\<rparr>, EOF]"
  using assms
  by (auto simp: Lex_def initialState_def numberState_def hexadecimalState_eq initialState_Nil
      isEOF_def char_defs)

theorem Lex_hexadecimal_nonzero_leading_digit_witness:
  "(49 :: 16 word) \<in> set (S ''123456789'') \<and> (120 :: 16 word) \<in> set (S ''xX'') \<and> S ''2'' \<noteq> []
   \<and> S ''1x2'' = 49 # 120 # S ''2''
   \<and> Lex (S ''1x2'') = Some [\<lparr>Type = token_Hexadecimal, Value = S ''1x2''\<rparr>, EOF]"
  using Lex_hexadecimal_nonzero_leading_digit [of 49 120 "S ''2''"]
  by (simp add: S_simps)

section \<open>Properties of the values\<close>

text \<open>
  C8. For every \<open>Bool\<close> the "is falsy" check \<open>IsFalse\<close> gives the same answer as the "is
  truthy" check \<open>IsTrue\<close>, namely the underlying boolean: \<open>IsFalse(True)\<close> is true and
  \<open>IsFalse(False)\<close> is false.
\<close>

theorem Bool_IsFalse_is_IsTrue:
  "Bool_IsFalse b = Bool_IsTrue b \<and> Bool_IsTrue b = b
   \<and> Bool_IsFalse types_True = True \<and> Bool_IsFalse types_False = False"
  by (simp add: Bool_IsFalse_def Bool_IsTrue_def types_True_def types_False_def)

subsection \<open>Negation of a binary64\<close>

lemma signMask_eq: "signMask = 2 ^ 63"
  by (simp add: signMask_def)

lemma signbit_iff: "signbit x \<longleftrightarrow> bit x 63"
proof -
  have "x AND 2 ^ 63 = 0 \<longleftrightarrow> \<not> bit x 63"
    by (rule and_exp_eq_0_iff_not_bit)
  then show ?thesis
    unfolding signbit_def signMask_eq by blast
qed

lemma negate_signbit: "signbit (negate n) \<longleftrightarrow> \<not> signbit n"
  by (simp add: signbit_iff negate_def signMask_eq bit_xor_iff bit_exp_iff)

lemma signMask_and: "signMask AND expMask = 0" "signMask AND fracMask = 0"
  by (simp_all add: signMask_def expMask_def fracMask_def)

lemma negate_exp: "negate n AND expMask = n AND expMask"
  by (simp add: negate_def bit.conj_xor_distrib2 signMask_and)

lemma negate_frac: "negate n AND fracMask = n AND fracMask"
  by (simp add: negate_def bit.conj_xor_distrib2 signMask_and)

lemma negate_isNaN: "isNaN (negate n) \<longleftrightarrow> isNaN n"
  by (simp add: isNaN_def negate_exp negate_frac)

lemma negate_isZero: "isZero (negate n) \<longleftrightarrow> isZero n"
  by (simp add: isZero_def bit.conj_disj_distrib negate_exp negate_frac)

section \<open>Properties of the evaluator\<close>

lemmas eval_simps = eval.simps evalProgram.simps evalProgram_loop.simps evalUnaryExpr.simps
  evalExpr.simps evalMemberExpr.simps evalCallExpr.simps evalArgs.simps evalArgs_loop.simps
  evalIdentExpr_def Get_def ToObject_def isFunction_def

lemmas example_defs = example_log_def example_console_def example_Abad_def example_Runtime_def
  example_call_def example_one_def S_simps

lemma example_u: "char_of (117 :: nat) = CHR ''u''"
  by code_simp

lemma example_zzz: "char_of (122 :: nat) = CHR ''z''"
  by code_simp

lemma evalProgram_loop_append:
  "evalProgram_loop rt a (pre @ post) r s =
     (case evalProgram_loop rt a pre r s of
        (Inl e, s') \<Rightarrow> (Inl e, s')
      | (Inr r', s') \<Rightarrow> evalProgram_loop rt a post r' s')"
  by (induction pre arbitrary: r s) (auto simp: evalProgram_loop.simps split: prod.splits sum.splits)

lemma evalArgs_loop_append:
  "evalArgs_loop rt a (pre @ post) vs s =
     (case evalArgs_loop rt a pre vs s of
        (Inl e, s') \<Rightarrow> (Inl e, s')
      | (Inr vs', s') \<Rightarrow> evalArgs_loop rt a post vs' s')"
  by (induction pre arbitrary: vs s) (auto simp: evalArgs_loop.simps split: prod.splits sum.splits)

text \<open>
  C1. A Program node is evaluated by \<open>evalProgram\<close>, statement by statement in source order,
  each statement in the call log left by the ones before it. If the statements \<open>pre\<close>
  already fail, or if they succeed and the next statement \<open>n\<close> fails, the program returns
  that error with no result and stops there: result and call log are those of the failing
  statement whatever statements \<open>post\<close> follow, so none of them is evaluated. If \<open>pre\<close>
  succeeds and the last statement \<open>n\<close> succeeds, the program returns the value of \<open>n\<close>.
  (The empty program returns the nil value without an error.)
\<close>

theorem evalProgram_in_order:
  "(evalProgram rt a pre s = (Inl e, s1) \<longrightarrow>
      evalProgram rt a (pre @ post) s = (Inl e, s1))
   \<and> (evalProgram rt a pre s = (Inr r, s1) \<and> eval rt a n s1 = (Inl e, s2) \<longrightarrow>
      evalProgram rt a (pre @ n # post) s = (Inl e, s2))
   \<and> (evalProgram rt a pre s = (Inr r, s1) \<and> eval rt a n s1 = (Inr v, s2) \<longrightarrow>
      evalProgram rt a (pre @ [n]) s = (Inr v, s2))
   \<and> evalProgram rt a [] s = (Inr None, s)
   \<and> eval rt a (Program nodes) s = evalProgram rt a nodes s"
  by (simp add: evalProgram.simps evalProgram_loop_append evalProgram_loop.simps eval.simps)

theorem evalProgram_in_order_witness:
  "evalProgram example_Runtime example_Abad [Ident (S ''zzz'')] [] = (Inl (Error ''zzz is not defined''), [])
   \<and> evalProgram example_Runtime example_Abad ([Ident (S ''zzz'')] @ [example_call []]) []
       = (Inl (Error ''zzz is not defined''), [])
   \<and> evalProgram example_Runtime example_Abad [example_one] [] = (Inr (Some (Number 0x3FF0000000000000)), [])
   \<and> eval example_Runtime example_Abad (Ident (S ''zzz'')) [] = (Inl (Error ''zzz is not defined''), [])
   \<and> evalProgram example_Runtime example_Abad ([example_one] @ Ident (S ''zzz'') # [example_call []]) []
       = (Inl (Error ''zzz is not defined''), [])
   \<and> evalProgram example_Runtime example_Abad [example_call []] [] = (Inr (Some Undefined), [(example_log, [])])
   \<and> eval example_Runtime example_Abad example_one [(example_log, [])]
       = (Inr (Some (Number 0x3FF0000000000000)), [(example_log, [])])
   \<and> evalProgram example_Runtime example_Abad ([example_call []] @ [example_one]) []
       = (Inr (Some (Number 0x3FF0000000000000)), [(example_log, [])])"
  using evalProgram_in_order [where rt = example_Runtime and a = example_Abad and s = "[]"
      and pre = "[Ident (S ''zzz'')]" and e = "Error ''zzz is not defined''" and ?s1.0 = "[]"
      and post = "[example_call []]"]
    evalProgram_in_order [where rt = example_Runtime and a = example_Abad and s = "[]"
      and pre = "[example_one]" and r = "Some (Number 0x3FF0000000000000)" and ?s1.0 = "[]"
      and n = "Ident (S ''zzz'')" and e = "Error ''zzz is not defined''" and ?s2.0 = "[]"
      and post = "[example_call []]"]
    evalProgram_in_order [where rt = example_Runtime and a = example_Abad and s = "[]"
      and pre = "[example_call []]" and r = "Some Undefined" and ?s1.0 = "[(example_log, [])]"
      and n = example_one and v = "Some (Number 0x3FF0000000000000)"
      and ?s2.0 = "[(example_log, [])]"]
  by (simp add: eval_simps example_defs example_zzz)

text \<open>
  C2. An Identifier node is evaluated by looking its name up on the global object with
  \<open>Get\<close>; whenever the lookup yields a value strictly equal to Undefined, which is so when
  the name is absent and when it is bound to Undefined, evaluation fails with the message
  \<open>"<name> is not defined"\<close>. In particular the unbound identifier \<open>zzz\<close>, printed as
  \<open>"zzz"\<close>, fails with \<open>"zzz is not defined"\<close>.
\<close>

theorem evalIdentExpr_not_defined:
  "(Get (global a) name = Inr val \<and> StrictEqual val Undefined \<longrightarrow>
      evalIdentExpr rt a name = Inl (Error (Ident_String rt name @ '' is not defined'')))
   \<and> (map_of (props (global a)) name = None
        \<or> (\<exists>p. map_of (props (global a)) name = Some p \<and> pvalue p = Undefined) \<longrightarrow>
      eval rt a (Ident name) s = (Inl (Error (Ident_String rt name @ '' is not defined'')), s))
   \<and> (map_of (props (global a)) (S ''zzz'') = None \<and> Ident_String rt (S ''zzz'') = ''zzz'' \<longrightarrow>
      eval rt a (Ident (S ''zzz'')) s = (Inl (Error ''zzz is not defined''), s))"
  by (auto simp: evalIdentExpr_def Get_def eval.simps evalExpr.simps)

theorem evalIdentExpr_not_defined_witness:
  "Get (global example_Abad) (S ''u'') = Inr Undefined \<and> StrictEqual Undefined Undefined
   \<and> evalIdentExpr example_Runtime example_Abad (S ''u'') = Inl (Error ''u is not defined'')
   \<and> map_of (props (global example_Abad)) (S ''zzz'') = None
   \<and> Ident_String example_Runtime (S ''zzz'') = ''zzz''
   \<and> eval example_Runtime example_Abad (Ident (S ''zzz'')) [] = (Inl (Error ''zzz is not defined''), [])"
  using evalIdentExpr_not_defined [where rt = example_Runtime and a = example_Abad
      and name = "S ''u''" and val = Undefined]
    evalIdentExpr_not_defined [where rt = example_Runtime and a = example_Abad
      and name = "S ''zzz''" and s = "[]"]
  by (simp add: Get_def example_defs example_zzz example_u)

text \<open>
  C3. In a CallExpr whose callee evaluated to a value that \<open>ToObject\<close> turned into an
  object with the Function capability, the arguments are evaluated from left to right,
  each in the call log left by the ones before it, their values collected in order. If
  an argument fails after the arguments \<open>pre\<close> succeeded, the call expression returns that
  error, with the call log as the failing argument left it: the arguments \<open>post\<close> after it
  are not evaluated and \<open>Call\<close> is not invoked. If every argument succeeds, \<open>Call\<close> is
  invoked once with the receiver object and the argument values, and its result is
  returned.
\<close>

theorem evalCallExpr_arguments:
  assumes "evalExpr rt a callee s = (Inr objval, s1)"
    and "ToObject rt objval = Inr obj"
    and "isFunction obj"
  shows "(evalArgs rt a pre s1 = (Inr vs, s2) \<and> evalExpr rt a arg s2 = (Inl e, s3) \<longrightarrow>
            evalCallExpr rt a callee (pre @ arg # post) s = (Inl e, s3))
     \<and> (evalArgs rt a args s1 = (Inr vs, s2) \<longrightarrow>
            evalCallExpr rt a callee args s = (Inr (Call rt s2 obj vs), s2 @ [(obj, vs)]))
     \<and> (evalArgs rt a pre s1 = (Inr vs, s2) \<and> evalExpr rt a arg s2 = (Inr v, s3) \<longrightarrow>
            evalArgs rt a (pre @ [arg]) s1 = (Inr (vs @ [v]), s3))
     \<and> evalArgs rt a [] s1 = (Inr [], s1)
     \<and> evalExpr rt a (CallExpr callee args) s = evalCallExpr rt a callee args s"
  using assms
  by (simp add: evalCallExpr.simps evalArgs.simps evalArgs_loop_append evalArgs_loop.simps
      evalExpr.simps)

theorem evalCallExpr_arguments_witness:
  "evalExpr example_Runtime example_Abad (MemberExpr (Ident (S ''console'')) (S ''log'')) []
     = (Inr (Object example_log), [])
   \<and> ToObject example_Runtime (Object example_log) = Inr example_log
   \<and> isFunction example_log
   \<and> evalArgs example_Runtime example_Abad [example_call [], example_one] []
       = (Inr [Undefined, Number 0x3FF0000000000000], [(example_log, [])])
   \<and> evalExpr example_Runtime example_Abad (Ident (S ''zzz'')) [(example_log, [])]
       = (Inl (Error ''zzz is not defined''), [(example_log, [])])
   \<and> evalCallExpr example_Runtime example_Abad (MemberExpr (Ident (S ''console'')) (S ''log''))
         ([example_call [], example_one] @ Ident (S ''zzz'') # [example_call []]) []
       = (Inl (Error ''zzz is not defined''), [(example_log, [])])
   \<and> evalCallExpr example_Runtime example_Abad (MemberExpr (Ident (S ''console'')) (S ''log''))
         [example_call [], example_one] []
       = (Inr Undefined, [(example_log, []), (example_log, [Undefined, Number 0x3FF0000000000000])])
   \<and> evalExpr example_Runtime example_Abad (example_call [example_one]) [(example_log, [])]
       = (Inr Undefined, [(example_log, []), (example_log, [Number 0x3FF0000000000000])])
   \<and> evalArgs example_Runtime example_Abad ([example_call [], example_one] @ [example_call [example_one]]) []
       = (Inr ([Undefined, Number 0x3FF0000000000000] @ [Undefined]),
          [(example_log, []), (example_log, [Number 0x3FF0000000000000])])"
  using evalCallExpr_arguments [where rt = example_Runtime and a = example_Abad and s = "[]"
      and callee = "MemberExpr (Ident (S ''console'')) (S ''log'')"
      and objval = "Object example_log" and obj = example_log and ?s1.0 = "[]"
      and pre = "[example_call [], example_one]" and args = "[example_call [], example_one]"
      and vs = "[Undefined, Number 0x3FF0000000000000]" and ?s2.0 = "[(example_log, [])]"
      and arg = "Ident (S ''zzz'')" and e = "Error ''zzz is not defined''"
      and ?s3.0 = "[(example_log, [])]" and post = "[example_call []]"]
    evalCallExpr_arguments [where rt = example_Runtime and a = example_Abad and s = "[]"
      and callee = "MemberExpr (Ident (S ''console'')) (S ''log'')"
      and objval = "Object example_log" and obj = example_log and ?s1.0 = "[]"
      and pre = "[example_call [], example_one]"
      and vs = "[Undefined, Number 0x3FF0000000000000]" and ?s2.0 = "[(example_log, [])]"
      and arg = "example_call [example_one]" and v = Undefined
      and ?s3.0 = "[(example_log, []), (example_log, [Number 0x3FF0000000000000])]"]
  by (simp add: eval_simps example_defs example_zzz)

text \<open>
  C4. A CallExpr whose callee evaluates successfully to a value that \<open>ToObject\<close> turns
  into an object without the Function capability fails with the message
  \<open>"<kind> is not a function"\<close>, the kind being that of the callee's value; no argument is
  evaluated.
\<close>

theorem evalCallExpr_not_a_function:
  assumes "evalExpr rt a callee s = (Inr objval, s1)"
    and "ToObject rt objval = Inr obj"
    and "\<not> isFunction obj"
  shows "evalCallExpr rt a callee args s =
           (Inl (Error (Kind_String rt (Value_Kind objval) @ '' is not a function'')), s1)
     \<and> eval rt a (CallExpr callee args) s =
           (Inl (Error (Kind_String rt (Value_Kind objval) @ '' is not a function'')), s1)"
  using assms
  by (simp add: evalCallExpr.simps eval.simps evalExpr.simps)

theorem evalCallExpr_not_a_function_witness:
  "evalExpr example_Runtime example_Abad (Ident (S ''console'')) [] = (Inr (Object example_console), [])
   \<and> ToObject example_Runtime (Object example_console) = Inr example_console
   \<and> \<not> isFunction example_console
   \<and> eval example_Runtime example_Abad (CallExpr (Ident (S ''console'')) [example_call []]) []
       = (Inl (Error ''object is not a function''), [])"
  using evalCallExpr_not_a_function [where rt = example_Runtime and a = example_Abad and s = "[]"
      and callee = "Ident (S ''console'')" and objval = "Object example_console"
      and obj = example_console and ?s1.0 = "[]" and args = "[example_call []]"]
  by (simp add: eval_simps example_defs)

lemma evalUnaryExpr_not_Number:
  assumes "eval rt a operand s = (Inr obj, s1)" and "\<forall>v. obj = Some v \<longrightarrow> Value_Kind v \<noteq> KindNumber"
  shows "evalUnaryExpr rt a op operand s = (Inl (Error (''not a number: '' @ Value_String rt obj)), s1)"
proof (cases obj)
  case None
  with assms show ?thesis by (simp add: evalUnaryExpr.simps)
next
  case (Some v)
  with assms have "Value_Kind v \<noteq> KindNumber" by simp
  then show ?thesis using assms Some
    by (cases v) (simp_all add: evalUnaryExpr.simps)
qed

text \<open>
  C5. A UnaryExpr evaluates its operand first: the operand's failure is the failure of
  the expression. If the operand's value is not of kind Number (or is the nil value),
  evaluation fails with \<open>"not a number: <value>"\<close>. If it is the Number \<open>n\<close>, Minus yields the
  IEEE-754 negation of \<open>n\<close> and Plus yields \<open>n\<close> unchanged. The negation reverses the sign
  bit and keeps exponent and fraction, so it turns each zero into the other and a NaN
  into a NaN.
\<close>

theorem evalUnaryExpr_number:
  "(eval rt a operand s = (Inl e, s1) \<longrightarrow> evalUnaryExpr rt a op operand s = (Inl e, s1))
   \<and> (eval rt a operand s = (Inr obj, s1) \<and> (\<forall>v. obj = Some v \<longrightarrow> Value_Kind v \<noteq> KindNumber) \<longrightarrow>
        evalUnaryExpr rt a op operand s
          = (Inl (Error (''not a number: '' @ Value_String rt obj)), s1))
   \<and> (eval rt a operand s = (Inr (Some (Number n)), s1) \<longrightarrow>
        evalUnaryExpr rt a token_Minus operand s = (Inr (Number (negate n)), s1)
        \<and> evalUnaryExpr rt a token_Plus operand s = (Inr (Number n), s1))
   \<and> evalExpr rt a (UnaryExpr op operand) s = evalUnaryExpr rt a op operand s
   \<and> (signbit (negate n) \<longleftrightarrow> \<not> signbit n)
   \<and> negate n AND expMask = n AND expMask \<and> negate n AND fracMask = n AND fracMask
   \<and> (isNaN (negate n) \<longleftrightarrow> isNaN n) \<and> (isZero (negate n) \<longleftrightarrow> isZero n)"
proof -
  have "eval rt a operand s = (Inl e, s1) \<longrightarrow> evalUnaryExpr rt a op operand s = (Inl e, s1)"
    by (simp add: evalUnaryExpr.simps)
  moreover have "eval rt a operand s = (Inr (Some (Number n)), s1) \<longrightarrow>
        evalUnaryExpr rt a token_Minus operand s = (Inr (Number (negate n)), s1)
        \<and> evalUnaryExpr rt a token_Plus operand s = (Inr (Number n), s1)"
    by (simp add: evalUnaryExpr.simps)
  moreover have "evalExpr rt a (UnaryExpr op operand) s = evalUnaryExpr rt a op operand s"
    by (simp add: evalExpr.simps)
  ultimately show ?thesis
    using evalUnaryExpr_not_Number [of rt a operand s obj s1 op]
    by (simp add: negate_signbit negate_exp negate_frac negate_isNaN negate_isZero)
qed

theorem evalUnaryExpr_number_witness:
  "eval example_Runtime example_Abad (Ident (S ''zzz'')) [] = (Inl (Error ''zzz is not defined''), [])
   \<and> evalUnaryExpr example_Runtime example_Abad token_Minus (Ident (S ''zzz'')) []
       = (Inl (Error ''zzz is not defined''), [])
   \<and> eval example_Runtime example_Abad (Ident (S ''console'')) [] = (Inr (Some (Object example_console)), [])
   \<and> Value_Kind (Object example_console) \<noteq> KindNumber
   \<and> evalUnaryExpr example_Runtime example_Abad token_Minus (Ident (S ''console'')) []
       = (Inl (Error ''not a number: value''), [])
   \<and> eval example_Runtime example_Abad (ast_Number 0 True) [] = (Inr (Some (Number 0)), [])
   \<and> evalUnaryExpr example_Runtime example_Abad token_Minus (ast_Number 0 True) []
       = (Inr (Number 0x8000000000000000), [])
   \<and> evalUnaryExpr example_Runtime example_Abad token_Plus (ast_Number 0 True) []
       = (Inr (Number 0), [])"
  using evalUnaryExpr_number [where rt = example_Runtime and a = example_Abad and s = "[]"
      and operand = "Ident (S ''zzz'')" and e = "Error ''zzz is not defined''" and ?s1.0 = "[]"
      and op = token_Minus]
    evalUnaryExpr_number [where rt = example_Runtime and a = example_Abad and s = "[]"
      and operand = "Ident (S ''console'')" and obj = "Some (Object example_console)"
      and ?s1.0 = "[]" and op = token_Minus]
    evalUnaryExpr_number [where rt = example_Runtime and a = example_Abad and s = "[]"
      and operand = "ast_Number 0 True" and n = 0 and ?s1.0 = "[]"]
  by (simp add: eval_simps example_defs example_zzz negate_def signMask_def)

end
